theory Spec2Isabelle
  imports Complex_Main "HOL-Library.Sublist" "HOL-Library.Monad_Syntax"
begin

section \<open>Values shared by the services\<close>

text \<open>
  A JavaScript \<open>number\<close> is modelled as an exact rational, and there is no NaN and no
  infinity. The code computes in doubles: a difference of two doubles is rounded to the
  nearest double, which keeps its sign (it is zero only when the operands are equal), so
  comparisons of a difference with zero are the same here and in the code, while the
  value of a difference can differ in the last place. No statement below depends on the
  exact value of a computed difference.

  A \<open>Date\<close> is its epoch time in milliseconds. A field that TypeScript declares optional
  (\<open>minStock?\<close>, \<open>reason?\<close>) is an \<open>option\<close>; the identifier and the time stamps of a
  stored entity are always set by \<open>create\<close>, so they are plain fields.
\<close>

type_synonym number = rat
type_synonym date = int

section \<open>Access policy (utils/auth.ts)\<close>

datatype UserRole = ADMIN | MANAGER | VIEWER

fun roleHierarchy :: "UserRole \<Rightarrow> nat" where
  "roleHierarchy VIEWER = 1"
| "roleHierarchy MANAGER = 2"
| "roleHierarchy ADMIN = 3"

definition hasRole :: "UserRole \<Rightarrow> UserRole \<Rightarrow> bool" where
  "hasRole userRole requiredRole \<longleftrightarrow> roleHierarchy userRole \<ge> roleHierarchy requiredRole"

definition hasAnyRole :: "UserRole \<Rightarrow> UserRole list \<Rightarrow> bool" where
  "hasAnyRole userRole requiredRoles = list_ex (\<lambda>role. hasRole userRole role) requiredRoles"

text \<open>
  The ranking as the specification words it: Viewer is 1, Manager is 2, Admin is 3. It is
  written independently of \<open>roleHierarchy\<close> and compared with the code below.
\<close>

definition spec_rank :: "UserRole \<Rightarrow> int" where
  "spec_rank r = (if r = VIEWER then 1 else if r = MANAGER then 2 else 3)"

section \<open>Entities (types)\<close>

record ProductData =
  name :: string
  sku :: string
  price :: number
  category :: string
  stock :: number
  minStock :: "number option"
  description :: "string option"
  warehouseId :: "string option"

record IProduct = ProductData +
  p_id :: string
  createdAt :: date
  updatedAt :: date

datatype Action = Add | Update | Remove

record LogData =
  productId :: string
  l_warehouseId :: "string option"
  userId :: string
  action :: Action
  previousStock :: number
  newStock :: number
  quantity :: number
  reason :: "string option"

record IInventoryLog = LogData +
  l_id :: string
  timestamp :: date

section \<open>Rendering a clock reading in an identifier\<close>

text \<open>
  \<open>`prod_${Date.now()}`\<close> writes the clock reading, an integer number of milliseconds, in
  decimal: no leading zero, a minus sign for a reading before the epoch.
\<close>

definition digit_char :: "nat \<Rightarrow> char" where
  "digit_char d = ''0123456789'' ! d"

fun digits :: "nat \<Rightarrow> string" where
  "digits n = (if n < 10 then [digit_char n] else digits (n div 10) @ [digit_char (n mod 10)])"

declare digits.simps [simp del]

definition number_toString :: "int \<Rightarrow> string" where
  "number_toString i = (if i < 0 then CHR ''-'' # digits (nat (- i)) else digits (nat i))"

section \<open>Array helpers\<close>

text \<open>
  \<open>Array.prototype.find\<close> is \<open>List.find\<close>. \<open>Array.prototype.findIndex\<close> returns the first
  index whose element satisfies the predicate, and -1 (here \<open>None\<close>) when there is none.
\<close>

fun findIndex :: "('a \<Rightarrow> bool) \<Rightarrow> 'a list \<Rightarrow> nat option" where
  "findIndex P [] = None"
| "findIndex P (x # xs) = (if P x then Some 0 else map_option Suc (findIndex P xs))"

text \<open>The operand of \<open>x || d\<close> for an optional string: \<open>undefined\<close> and \<open>''\<close> are falsy.\<close>

definition or_default :: "string option \<Rightarrow> string \<Rightarrow> string" where
  "or_default x d = (case x of None \<Rightarrow> d | Some s \<Rightarrow> if s = [] then d else s)"

section \<open>MockProductService (data/mockProducts.ts)\<close>

text \<open>
  The service owns the array \<open>products\<close>; each method below takes the array and, when it
  writes, returns the array after the call. Every method returns spread copies
  (\<open>{ ...product }\<close>), which are values here. A method that reads the clock takes the
  reading as an argument, one argument for each read, in the order of the reads.
\<close>

definition initial_products :: "IProduct list" where
  "initial_products =
    [\<lparr>name = ''Laptop Dell XPS 15'', sku = ''DX15-2025'', price = 120099 / 100,
      category = ''Electronics'', stock = 5, minStock = Some 10,
      description = Some ''High-performance laptop for professionals'',
      warehouseId = Some ''wh_main'', p_id = ''prod_001'',
      createdAt = 1704067200000, updatedAt = 1704067200000\<rparr>,
     \<lparr>name = ''Wireless Mouse'', sku = ''WM-2025'', price = 2599 / 100,
      category = ''Electronics'', stock = 3, minStock = Some 15,
      description = Some ''Ergonomic wireless mouse'',
      warehouseId = Some ''wh_main'', p_id = ''prod_002'',
      createdAt = 1704067200000, updatedAt = 1704067200000\<rparr>,
     \<lparr>name = ''Office Chair'', sku = ''OC-2025'', price = 19999 / 100,
      category = ''Furniture'', stock = 25, minStock = Some 5,
      description = Some ''Comfortable ergonomic office chair'',
      warehouseId = Some ''wh_main'', p_id = ''prod_003'',
      createdAt = 1704067200000, updatedAt = 1704067200000\<rparr>,
     \<lparr>name = ''Printer Paper A4'', sku = ''PP-A4-500'', price = 899 / 100,
      category = ''Office Supplies'', stock = 150, minStock = Some 20,
      description = Some ''500 sheets of premium A4 printer paper'',
      warehouseId = Some ''wh_storage'', p_id = ''prod_004'',
      createdAt = 1704067200000, updatedAt = 1704067200000\<rparr>,
     \<lparr>name = ''Coffee Maker'', sku = ''CM-DELUXE'', price = 8999 / 100,
      category = ''Appliances'', stock = 12, minStock = Some 8,
      description = Some ''12-cup programmable coffee maker'',
      warehouseId = Some ''wh_main'', p_id = ''prod_005'',
      createdAt = 1704067200000, updatedAt = 1704067200000\<rparr>]"

definition MockProductService_findById :: "string \<Rightarrow> IProduct list \<Rightarrow> IProduct option" where
  "MockProductService_findById ident products = find (\<lambda>p. p_id p = ident) products"

definition MockProductService_findBySku :: "string \<Rightarrow> IProduct list \<Rightarrow> IProduct option" where
  "MockProductService_findBySku s products = find (\<lambda>p. sku p = s) products"

definition MockProductService_create ::
  "date \<Rightarrow> date \<Rightarrow> date \<Rightarrow> ProductData \<Rightarrow> IProduct list \<Rightarrow> IProduct \<times> IProduct list" where
  "MockProductService_create now_id now_created now_updated productData products =
    (let newProduct =
       \<lparr>name = name productData, sku = sku productData, price = price productData,
        category = category productData, stock = stock productData,
        minStock = minStock productData, description = description productData,
        warehouseId = warehouseId productData,
        p_id = ''prod_'' @ number_toString now_id,
        createdAt = now_created, updatedAt = now_updated\<rparr>
     in (newProduct, products @ [newProduct]))"

definition MockProductService_updateStock ::
  "string \<Rightarrow> number \<Rightarrow> date \<Rightarrow> IProduct list \<Rightarrow> IProduct option \<times> IProduct list" where
  "MockProductService_updateStock ident newStock' now products =
    (case findIndex (\<lambda>p. p_id p = ident) products of
       None \<Rightarrow> (None, products)
     | Some index \<Rightarrow>
         (let products' = products[index := (products ! index)\<lparr>stock := newStock', updatedAt := now\<rparr>]
          in (Some (products' ! index), products')))"

section \<open>MockInventoryLogService (data/mockUsers.ts)\<close>

text \<open>
  The service owns the array \<open>logs\<close>. The queries build a new array with \<open>filter\<close> or
  \<open>map\<close> before they sort it, so the sort never reorders \<open>logs\<close> itself; the comparator
  orders by time stamp, and \<open>Array.prototype.sort\<close> is stable, as \<open>sort_key\<close> is.
\<close>

definition initial_logs :: "IInventoryLog list" where
  "initial_logs =
    [\<lparr>productId = ''prod_001'', l_warehouseId = Some ''wh_main'', userId = ''user_manager_001'',
      action = Update, previousStock = 50, newStock = 45, quantity = - 5,
      reason = Some ''Sold to customer'', l_id = ''log_001'', timestamp = 1705312800000\<rparr>,
     \<lparr>productId = ''prod_002'', l_warehouseId = Some ''wh_main'', userId = ''user_manager_001'',
      action = Update, previousStock = 20, newStock = 15, quantity = - 5,
      reason = Some ''Inventory adjustment'', l_id = ''log_002'', timestamp = 1705242600000\<rparr>,
     \<lparr>productId = ''prod_003'', l_warehouseId = Some ''wh_main'', userId = ''user_admin_001'',
      action = Add, previousStock = 0, newStock = 25, quantity = 25,
      reason = Some ''Initial stock'', l_id = ''log_003'', timestamp = 1704877200000\<rparr>,
     \<lparr>productId = ''prod_001'', l_warehouseId = Some ''wh_main'', userId = ''user_manager_001'',
      action = Update, previousStock = 45, newStock = 5, quantity = - 40,
      reason = Some ''Bulk sale'', l_id = ''log_004'', timestamp = 1705769100000\<rparr>]"

definition newest_first :: "IInventoryLog list \<Rightarrow> IInventoryLog list" where
  "newest_first xs = sort_key (\<lambda>l. - timestamp l) xs"

definition oldest_first :: "IInventoryLog list \<Rightarrow> IInventoryLog list" where
  "oldest_first xs = sort_key timestamp xs"

definition MockInventoryLogService_findAll :: "IInventoryLog list \<Rightarrow> IInventoryLog list" where
  "MockInventoryLogService_findAll logs = newest_first logs"

definition MockInventoryLogService_findById :: "string \<Rightarrow> IInventoryLog list \<Rightarrow> IInventoryLog option" where
  "MockInventoryLogService_findById ident logs = find (\<lambda>l. l_id l = ident) logs"

definition MockInventoryLogService_findByProduct :: "string \<Rightarrow> IInventoryLog list \<Rightarrow> IInventoryLog list" where
  "MockInventoryLogService_findByProduct pid logs = newest_first (filter (\<lambda>l. productId l = pid) logs)"

definition MockInventoryLogService_findByWarehouse :: "string \<Rightarrow> IInventoryLog list \<Rightarrow> IInventoryLog list" where
  "MockInventoryLogService_findByWarehouse wid logs =
     newest_first (filter (\<lambda>l. l_warehouseId l = Some wid) logs)"

definition MockInventoryLogService_findByUser :: "string \<Rightarrow> IInventoryLog list \<Rightarrow> IInventoryLog list" where
  "MockInventoryLogService_findByUser uid logs = newest_first (filter (\<lambda>l. userId l = uid) logs)"

text \<open>
  \<open>slice(0, limit)\<close>: a negative end counts from the end of the array. The parameter
  defaults to 10.
\<close>

definition slice0 :: "int \<Rightarrow> 'a list \<Rightarrow> 'a list" where
  "slice0 limit xs = (if 0 \<le> limit then take (nat limit) xs else take (length xs - nat (- limit)) xs)"

definition MockInventoryLogService_findRecent :: "int option \<Rightarrow> IInventoryLog list \<Rightarrow> IInventoryLog list" where
  "MockInventoryLogService_findRecent limit logs =
     slice0 (case limit of None \<Rightarrow> 10 | Some n \<Rightarrow> n) (newest_first logs)"

definition MockInventoryLogService_create ::
  "date \<Rightarrow> date \<Rightarrow> LogData \<Rightarrow> IInventoryLog list \<Rightarrow> IInventoryLog \<times> IInventoryLog list" where
  "MockInventoryLogService_create now_id now_stamp logData logs =
    (let newLog =
       \<lparr>productId = productId logData, l_warehouseId = l_warehouseId logData,
        userId = userId logData, action = action logData,
        previousStock = previousStock logData, newStock = newStock logData,
        quantity = quantity logData, reason = reason logData,
        l_id = ''log_'' @ number_toString now_id, timestamp = now_stamp\<rparr>
     in (newLog, logs @ [newLog]))"

definition MockInventoryLogService_createStockUpdate ::
  "date \<Rightarrow> date \<Rightarrow> string \<Rightarrow> string \<Rightarrow> string \<Rightarrow> number \<Rightarrow> number \<Rightarrow> string option
     \<Rightarrow> IInventoryLog list \<Rightarrow> IInventoryLog \<times> IInventoryLog list" where
  "MockInventoryLogService_createStockUpdate now_id now_stamp pid wid uid previousStock' newStock' reason' logs =
    (let quantity' = newStock' - previousStock';
         action' = (if quantity' > 0 then Add else if quantity' < 0 then Update else Update)
     in MockInventoryLogService_create now_id now_stamp
          \<lparr>productId = pid, l_warehouseId = Some wid, userId = uid, action = action',
           previousStock = previousStock', newStock = newStock', quantity = quantity',
           reason = Some (or_default reason' ''Stock update'')\<rparr>
          logs)"

definition MockInventoryLogService_count :: "IInventoryLog list \<Rightarrow> nat" where
  "MockInventoryLogService_count logs = length logs"

text \<open>
  \<open>getStockMovements\<close> computes its cutoff from the clock and \<open>days\<close> with the calendar
  arithmetic of \<open>Date.setDate\<close>; the cutoff is an argument here.
\<close>

definition MockInventoryLogService_getStockMovements ::
  "string \<Rightarrow> date \<Rightarrow> IInventoryLog list \<Rightarrow> IInventoryLog list" where
  "MockInventoryLogService_getStockMovements pid cutoffDate logs =
     oldest_first (filter (\<lambda>l. productId l = pid \<and> timestamp l \<ge> cutoffDate) logs)"

definition MockInventoryLogService_getTotalMovementsByAction :: "IInventoryLog list \<Rightarrow> (Action \<rightharpoonup> nat)" where
  "MockInventoryLogService_getTotalMovementsByAction logs =
     fold (\<lambda>l actionCount.
             actionCount(action l \<mapsto> (case actionCount (action l) of None \<Rightarrow> 0 | Some c \<Rightarrow> c) + 1))
          logs Map.empty"

section \<open>Request bodies and the validation schemas\<close>

text \<open>
  A request body is the object that \<open>express.json()\<close> parsed (the empty object when
  nothing was sent): a list of keys with their JSON values, read with \<open>map_of\<close>. The schemas are built from the Joi library, which is not
  part of the repository; what its rules accept is written out here with Joi's defaults:
  \<^item> \<open>Joi.number()\<close> accepts a number, and a string that converts to one; the conversion of
    a string is the parameter \<open>toNumber\<close>. It refuses a number outside the safe integer
    range, and \<open>min(0)\<close> refuses a negative one. There is no integrality rule.
  \<^item> \<open>Joi.string()\<close> accepts a string that is not empty, and nothing else.
  \<^item> \<open>required()\<close> refuses an absent key, \<open>optional()\<close> accepts it.
  \<^item> \<open>Joi.object({...})\<close> refuses a key that the schema does not name.
  The text of the validation message (\<open>error.details[0].message\<close>) is not modelled.
\<close>

datatype jsonv =
    JNumber number
  | JString string
  | JBool bool
  | JNull
  | JArray "jsonv list"
  | JObject "(string \<times> jsonv) list"

type_synonym body = "(string \<times> jsonv) list"

definition MAX_SAFE_INTEGER :: number where
  "MAX_SAFE_INTEGER = 9007199254740991"

definition joi_min0 :: "number \<Rightarrow> number option" where
  "joi_min0 n = (if n > MAX_SAFE_INTEGER \<or> n < - MAX_SAFE_INTEGER then None
                 else if n < 0 then None else Some n)"

fun joi_number_min0 :: "(string \<Rightarrow> number option) \<Rightarrow> jsonv \<Rightarrow> number option" where
  "joi_number_min0 toNumber (JNumber n) = joi_min0 n"
| "joi_number_min0 toNumber (JString s) = (case toNumber s of None \<Rightarrow> None | Some n \<Rightarrow> joi_min0 n)"
| "joi_number_min0 toNumber _ = None"

fun joi_string :: "jsonv \<Rightarrow> string option" where
  "joi_string (JString s) = (if s = [] then None else Some s)"
| "joi_string _ = None"

text \<open>A rule on a key: \<open>None\<close> is a validation error, \<open>Some\<close> the validated value.\<close>

definition required :: "(jsonv \<Rightarrow> 'a option) \<Rightarrow> body \<Rightarrow> string \<Rightarrow> 'a option" where
  "required rule b k = (case map_of b k of None \<Rightarrow> None | Some v \<Rightarrow> rule v)"

definition optional :: "(jsonv \<Rightarrow> 'a option) \<Rightarrow> body \<Rightarrow> string \<Rightarrow> 'a option option" where
  "optional rule b k = (case map_of b k of None \<Rightarrow> Some None | Some v \<Rightarrow> map_option Some (rule v))"

definition only_keys :: "string list \<Rightarrow> body \<Rightarrow> unit option" where
  "only_keys ks b = (if list_all (\<lambda>k. k \<in> set ks) (map fst b) then Some () else None)"

text \<open>\<open>ProductController.productSchema\<close>\<close>

definition productSchema_validate :: "(string \<Rightarrow> number option) \<Rightarrow> body \<Rightarrow> ProductData option" where
  "productSchema_validate toNumber b =
    do {
      name' \<leftarrow> required joi_string b ''name'';
      sku' \<leftarrow> required joi_string b ''sku'';
      price' \<leftarrow> required (joi_number_min0 toNumber) b ''price'';
      category' \<leftarrow> required joi_string b ''category'';
      stock' \<leftarrow> required (joi_number_min0 toNumber) b ''stock'';
      minStock' \<leftarrow> optional (joi_number_min0 toNumber) b ''minStock'';
      description' \<leftarrow> optional joi_string b ''description'';
      warehouseId' \<leftarrow> optional joi_string b ''warehouseId'';
      _ \<leftarrow> only_keys [''name'', ''sku'', ''price'', ''category'', ''stock'', ''minStock'',
                       ''description'', ''warehouseId''] b;
      Some \<lparr>name = name', sku = sku', price = price', category = category', stock = stock',
            minStock = minStock', description = description', warehouseId = warehouseId'\<rparr>
    }"

text \<open>\<open>InventoryController.updateStockSchema\<close>\<close>

definition updateStockSchema_validate ::
  "(string \<Rightarrow> number option) \<Rightarrow> body \<Rightarrow> (number \<times> string option) option" where
  "updateStockSchema_validate toNumber b =
    do {
      stock' \<leftarrow> required (joi_number_min0 toNumber) b ''stock'';
      reason' \<leftarrow> optional joi_string b ''reason'';
      _ \<leftarrow> only_keys [''stock'', ''reason''] b;
      Some (stock', reason')
    }"

section \<open>The controllers (controllers/productController.ts)\<close>

text \<open>
  The two services are module-level singletons; the state of the process is the pair of
  their arrays. A handler takes the state and returns its response with the state after
  the call. A response carries the HTTP status, the \<open>success\<close> flag, the message and the
  data. The specification's error kinds are the statuses: ValidationError is 400,
  NotFound is 404, Conflict is 409. The \<open>logger\<close> calls do not touch the state.
\<close>

record state =
  products :: "IProduct list"
  logs :: "IInventoryLog list"

definition initial_state :: state where
  "initial_state = \<lparr>products = initial_products, logs = initial_logs\<rparr>"

datatype 'a response = Response (status: nat) (success: bool) (message: string) (data: "'a option")

record AuthUser =
  u_id :: string
  email :: string
  role :: UserRole

text \<open>
  What the \<open>Authorization\<close> header of a request amounts to: no bearer token, a token that
  \<open>verifyAccessToken\<close> refuses, or a token with its decoded user. The verification itself
  belongs to the JWT library. \<open>user\<close> is the field that the authentication middleware
  sets; a request arrives without it.
\<close>

datatype authorization = NoBearer | BadToken | Token AuthUser

record 'b request =
  params_id :: string
  req_body :: 'b
  authorization :: authorization
  user :: "AuthUser option"

text \<open>
  The handlers are static methods that read their schema through \<open>this\<close>
  (\<open>this.productSchema\<close>, \<open>this.updateStockSchema\<close>), inside their \<open>try\<close> block. The
  receiver is an argument here: \<open>Some\<close> of the class with its static schema when the
  handler is called as a method of its class, \<open>None\<close> when the function is called without
  a receiver; \<open>this\<close> is then \<open>undefined\<close>, reading the schema throws a \<open>TypeError\<close>, and
  the \<open>catch\<close> block answers 500 before anything is validated, read or written.
\<close>

record ProductController =
  productSchema :: "body \<Rightarrow> ProductData option"

record InventoryController =
  updateStockSchema :: "body \<Rightarrow> (number \<times> string option) option"

definition ProductController_class :: "(string \<Rightarrow> number option) \<Rightarrow> ProductController" where
  "ProductController_class toNumber = \<lparr>productSchema = productSchema_validate toNumber\<rparr>"

definition InventoryController_class :: "(string \<Rightarrow> number option) \<Rightarrow> InventoryController" where
  "InventoryController_class toNumber = \<lparr>updateStockSchema = updateStockSchema_validate toNumber\<rparr>"

definition ProductController_createProduct ::
  "ProductController option \<Rightarrow> date \<Rightarrow> date \<Rightarrow> date \<Rightarrow> body request \<Rightarrow> state
     \<Rightarrow> IProduct response \<times> state" where
  "ProductController_createProduct this now_id now_created now_updated req st =
    (case this of
       None \<Rightarrow> (Response 500 False ''Internal server error'' None, st)
     | Some cls \<Rightarrow>
    (case productSchema cls (req_body req) of
       None \<Rightarrow> (Response 400 False ''Validation error'' None, st)
     | Some v \<Rightarrow>
        (case MockProductService_findBySku (sku v) (products st) of
           Some existingProduct \<Rightarrow>
             (Response 409 False ''Product with this SKU already exists'' None, st)
         | None \<Rightarrow>
             (let (product, products') =
                    MockProductService_create now_id now_created now_updated v (products st)
              in (Response 201 True ''Product created successfully'' (Some product),
                  st\<lparr>products := products'\<rparr>)))))"

record StockUpdateData =
  d_productId :: string
  d_previousStock :: number
  d_updatedStock :: number
  d_updatedAt :: date

text \<open>
  \<open>req.user!.id\<close> is read after the product service has written the stock: without a user
  the read throws, the \<open>catch\<close> answers 500, and the stock stays written.
\<close>

definition InventoryController_updateStock ::
  "InventoryController option \<Rightarrow> date \<Rightarrow> date \<Rightarrow> date \<Rightarrow> body request \<Rightarrow> state
     \<Rightarrow> StockUpdateData response \<times> state" where
  "InventoryController_updateStock this now_updated now_id now_stamp req st =
    (case this of
       None \<Rightarrow> (Response 500 False ''Internal server error'' None, st)
     | Some cls \<Rightarrow>
    (case updateStockSchema cls (req_body req) of
       None \<Rightarrow> (Response 400 False ''Validation error'' None, st)
     | Some (newStock', reason') \<Rightarrow>
        (case MockProductService_findById (params_id req) (products st) of
           None \<Rightarrow> (Response 404 False ''Product not found'' None, st)
         | Some product \<Rightarrow>
            (let previousStock' = stock product in
             case MockProductService_updateStock (params_id req) newStock' now_updated (products st) of
               (None, products') \<Rightarrow>
                 (Response 500 False ''Failed to update stock'' None, st\<lparr>products := products'\<rparr>)
             | (Some updatedProduct, products') \<Rightarrow>
                 (case user req of
                    None \<Rightarrow>
                      (Response 500 False ''Internal server error'' None, st\<lparr>products := products'\<rparr>)
                  | Some u \<Rightarrow>
                      (let (entry, logs') =
                             MockInventoryLogService_createStockUpdate now_id now_stamp
                               (params_id req) (or_default (warehouseId product) []) (u_id u)
                               previousStock' newStock' reason' (logs st)
                       in (Response 200 True ''Stock updated successfully''
                             (Some \<lparr>d_productId = params_id req, d_previousStock = previousStock',
                                    d_updatedStock = newStock', d_updatedAt = updatedAt updatedProduct\<rparr>),
                           st\<lparr>products := products', logs := logs'\<rparr>)))))))"

section \<open>The middlewares and the routes\<close>

text \<open>
  A middleware either ends the request with a response (\<open>Inl\<close>) or passes the request on
  (\<open>Inr\<close>). \<open>authenticate\<close> attaches the decoded user; \<open>authorize\<close> and \<open>authorizeAny\<close>
  compare the user's role with the required ones.
\<close>

definition AuthMiddleware_authenticate :: "'b request \<Rightarrow> 'a response + 'b request" where
  "AuthMiddleware_authenticate req =
     (case authorization req of
        NoBearer \<Rightarrow> Inl (Response 401 False ''Access token required'' None)
      | BadToken \<Rightarrow> Inl (Response 401 False ''Invalid or expired token'' None)
      | Token decoded \<Rightarrow> Inr (req\<lparr>user := Some decoded\<rparr>))"

definition AuthMiddleware_authorize :: "UserRole \<Rightarrow> 'b request \<Rightarrow> 'a response + 'b request" where
  "AuthMiddleware_authorize requiredRole req =
     (case user req of
        None \<Rightarrow> Inl (Response 401 False ''Authentication required'' None)
      | Some u \<Rightarrow>
          if \<not> hasRole (role u) requiredRole
          then Inl (Response 403 False ''Insufficient permissions'' None)
          else Inr req)"

definition AuthMiddleware_authorizeAny :: "UserRole list \<Rightarrow> 'b request \<Rightarrow> 'a response + 'b request" where
  "AuthMiddleware_authorizeAny requiredRoles req =
     (case user req of
        None \<Rightarrow> Inl (Response 401 False ''Authentication required'' None)
      | Some u \<Rightarrow>
          if \<not> hasAnyRole (role u) requiredRoles
          then Inl (Response 403 False ''Insufficient permissions'' None)
          else Inr req)"

definition AuthMiddleware_requireAdmin :: "'b request \<Rightarrow> 'a response + 'b request" where
  "AuthMiddleware_requireAdmin = AuthMiddleware_authorize ADMIN"

definition AuthMiddleware_requireManagerOrAdmin :: "'b request \<Rightarrow> 'a response + 'b request" where
  "AuthMiddleware_requireManagerOrAdmin = AuthMiddleware_authorizeAny [MANAGER, ADMIN]"

text \<open>
  \<open>ErrorHandler.asyncHandler(fn)\<close> is the function that calls \<open>fn(req, res, next)\<close>: the
  handler it was given is called as a plain function, without a receiver. The handlers
  catch every exception themselves, so the promise is never rejected.
\<close>

definition ErrorHandler_asyncHandler :: "('this option \<Rightarrow> 'h) \<Rightarrow> 'h" where
  "ErrorHandler_asyncHandler fn = fn None"

text \<open>
  \<open>PATCH /api/v1/inventory/:id\<close> (routes/inventoryRoutes.ts) and \<open>POST /api/v1/products\<close>
  (the product routes): authentication, the role check, then the wrapped handler.
  These are the only places where the two handlers are used. The middlewares of the
  application that run before the router (CORS, body parsing, request logging, rate
  limiting) are not modelled: a request below is one that has reached its route.
\<close>

definition inventoryRoutes_patch ::
  "date \<Rightarrow> date \<Rightarrow> date \<Rightarrow> body request \<Rightarrow> state \<Rightarrow> StockUpdateData response \<times> state" where
  "inventoryRoutes_patch now_updated now_id now_stamp req st =
     (case AuthMiddleware_authenticate req of
        Inl res \<Rightarrow> (res, st)
      | Inr req1 \<Rightarrow>
          (case AuthMiddleware_requireManagerOrAdmin req1 of
             Inl res \<Rightarrow> (res, st)
           | Inr req2 \<Rightarrow>
               ErrorHandler_asyncHandler InventoryController_updateStock
                 now_updated now_id now_stamp req2 st))"

definition productRoutes_post ::
  "date \<Rightarrow> date \<Rightarrow> date \<Rightarrow> body request \<Rightarrow> state \<Rightarrow> IProduct response \<times> state" where
  "productRoutes_post now_id now_created now_updated req st =
     (case AuthMiddleware_authenticate req of
        Inl res \<Rightarrow> (res, st)
      | Inr req1 \<Rightarrow>
          (case AuthMiddleware_requireAdmin req1 of
             Inl res \<Rightarrow> (res, st)
           | Inr req2 \<Rightarrow>
               ErrorHandler_asyncHandler ProductController_createProduct
                 now_id now_created now_updated req2 st))"

section \<open>Sequences of calls of the services\<close>

text \<open>
  Every public method of \<open>MockInventoryLogService\<close> as a call, and the array \<open>logs\<close> after
  the call. Only \<open>create\<close>, and \<open>createStockUpdate\<close> through it, write to the array.
\<close>

datatype LogCall =
    FindAll
  | FindById string
  | FindByProduct string
  | FindByWarehouse string
  | FindByUser string
  | FindRecent "int option"
  | Create date date LogData
  | CreateStockUpdate date date string string string number number "string option"
  | Count
  | GetStockMovements string date
  | GetTotalMovementsByAction

fun logs_after :: "LogCall \<Rightarrow> IInventoryLog list \<Rightarrow> IInventoryLog list" where
  "logs_after (Create now_id now_stamp logData) ls =
     snd (MockInventoryLogService_create now_id now_stamp logData ls)"
| "logs_after (CreateStockUpdate now_id now_stamp pid wid uid prev new r) ls =
     snd (MockInventoryLogService_createStockUpdate now_id now_stamp pid wid uid prev new r ls)"
| "logs_after _ ls = ls"

text \<open>
  A sequence of calls of \<open>MockProductService.create\<close>, each with its three clock readings
  (the first is the one the identifier is made of) and its data, and the array after them.
\<close>

fun products_after_creates ::
  "(date \<times> date \<times> date \<times> ProductData) list \<Rightarrow> IProduct list \<Rightarrow> IProduct list" where
  "products_after_creates [] ps = ps"
| "products_after_creates ((now_id, now_created, now_updated, productData) # cs) ps =
     products_after_creates cs
       (snd (MockProductService_create now_id now_created now_updated productData ps))"

section \<open>Requests\<close>

text \<open>
  A stock value that is negative or not a number: the key is absent, or its value is a
  negative number, a string that converts to no number or to a negative one, or a value
  of another JSON type.
\<close>

definition stock_negative_or_non_numeric :: "(string \<Rightarrow> number option) \<Rightarrow> body \<Rightarrow> bool" where
  "stock_negative_or_non_numeric toNumber b =
     (case map_of b ''stock'' of
        None \<Rightarrow> True
      | Some (JNumber n) \<Rightarrow> n < 0
      | Some (JString s) \<Rightarrow> (case toNumber s of None \<Rightarrow> True | Some n \<Rightarrow> n < 0)
      | Some _ \<Rightarrow> True)"

text \<open>
  The requests of the integration tests, as they arrive at the routes with the token of
  the seeded manager or administrator.
\<close>

definition manager :: AuthUser where
  "manager = \<lparr>u_id = ''user_manager_001'', email = ''manager@example.com'', role = MANAGER\<rparr>"

definition admin :: AuthUser where
  "admin = \<lparr>u_id = ''user_admin_001'', email = ''admin@example.com'', role = ADMIN\<rparr>"

definition restock_request :: "body request" where
  "restock_request =
     \<lparr>params_id = ''prod_001'',
      req_body = [(''stock'', JNumber 10), (''reason'', JString ''Stock adjustment for testing'')],
      authorization = Token manager, user = None\<rparr>"

definition negative_request :: "body request" where
  "negative_request =
     \<lparr>params_id = ''prod_001'',
      req_body = [(''stock'', JNumber (- 5)), (''reason'', JString ''Invalid stock update'')],
      authorization = Token manager, user = None\<rparr>"

definition absent_request :: "body request" where
  "absent_request =
     \<lparr>params_id = ''nonexistent-id'',
      req_body = [(''stock'', JNumber 10), (''reason'', JString ''Test update'')],
      authorization = Token manager, user = None\<rparr>"

definition fractional_request :: "body request" where
  "fractional_request =
     \<lparr>params_id = ''prod_001'', req_body = [(''stock'', JNumber (7 / 2))],
      authorization = Token manager, user = None\<rparr>"

definition duplicate_sku_request :: "body request" where
  "duplicate_sku_request =
     \<lparr>params_id = [],
      req_body = [(''name'', JString ''Duplicate Product''), (''sku'', JString ''DX15-2025''),
                  (''price'', JNumber (19999 / 100)), (''category'', JString ''Electronics''),
                  (''stock'', JNumber 5)],
      authorization = Token admin, user = None\<rparr>"

definition fresh_sku_request :: "body request" where
  "fresh_sku_request =
     \<lparr>params_id = [],
      req_body = [(''name'', JString ''Test Product''), (''sku'', JString ''TEST-001''),
                  (''price'', JNumber (9999 / 100)), (''category'', JString ''Test Category''),
                  (''stock'', JNumber 10), (''minStock'', JNumber 5),
                  (''description'', JString ''Test product description'')],
      authorization = Token admin, user = None\<rparr>"

text \<open>Product data for two direct calls of \<open>MockProductService.create\<close>.\<close>

definition test_product :: ProductData where
  "test_product =
     \<lparr>name = ''Test Product'', sku = ''TEST-001'', price = 9999 / 100,
      category = ''Test Category'', stock = 10, minStock = Some 5,
      description = Some ''Test product description'', warehouseId = None\<rparr>"

definition update_test_product :: ProductData where
  "update_test_product =
     \<lparr>name = ''Update Test Product'', sku = ''UPDATE-001'', price = 7999 / 100,
      category = ''Test'', stock = 8, minStock = Some 3,
      description = None, warehouseId = None\<rparr>"

section \<open>Lemmas on the array helpers and the schemas\<close>

lemma findIndex_SomeD:
  "findIndex P xs = Some i \<Longrightarrow> i < length xs \<and> P (xs ! i) \<and> find P xs = Some (xs ! i)"
proof (induction xs arbitrary: i)
  case Nil
  then show ?case by simp
next
  case (Cons x xs)
  then show ?case by (cases "P x") auto
qed

lemma find_Some_findIndex: "find P xs = Some x \<Longrightarrow> \<exists>i. findIndex P xs = Some i"
  by (induction xs) (auto split: if_splits)

lemma findIndex_None_find: "findIndex P xs = None \<longleftrightarrow> find P xs = None"
  by (induction xs) auto

lemma find_update_at_findIndex:
  "findIndex P xs = Some i \<Longrightarrow> P y \<Longrightarrow> find P (xs[i := y]) = Some y"
proof (induction xs arbitrary: i)
  case Nil
  then show ?case by simp
next
  case (Cons x xs)
  then show ?case by (cases "P x") auto
qed

lemma find_append_fresh: "find P xs = None \<Longrightarrow> P y \<Longrightarrow> find P (xs @ [y]) = Some y"
  by (induction xs) (auto split: if_splits)

lemma joi_min0_SomeD: "joi_min0 n = Some m \<Longrightarrow> m = n \<and> 0 \<le> n"
  by (auto simp: joi_min0_def split: if_splits)

lemma joi_min0_negative: "n < 0 \<Longrightarrow> joi_min0 n = None"
  by (simp add: joi_min0_def)

lemma joi_number_min0_nonneg: "joi_number_min0 toNumber v = Some n \<Longrightarrow> 0 \<le> n"
  by (cases v) (auto dest: joi_min0_SomeD split: option.splits)

lemma joi_string_SomeD: "joi_string v = Some s \<Longrightarrow> v = JString s"
  by (cases v) (auto split: if_splits)

lemma updateStockSchema_validate_nonneg:
  "updateStockSchema_validate toNumber b = Some (n, r) \<Longrightarrow> 0 \<le> n"
  by (auto simp: updateStockSchema_validate_def required_def
      dest: joi_number_min0_nonneg split: option.splits Option.bind_splits)

lemma updateStockSchema_validate_rejects:
  "stock_negative_or_non_numeric toNumber b \<Longrightarrow> updateStockSchema_validate toNumber b = None"
  by (auto simp: stock_negative_or_non_numeric_def updateStockSchema_validate_def required_def
      joi_min0_negative split: option.splits jsonv.splits)

lemma productSchema_validate_sku:
  "productSchema_validate toNumber b = Some v \<Longrightarrow> map_of b ''sku'' = Some (JString (sku v))"
  by (auto simp: productSchema_validate_def required_def
      dest!: joi_string_SomeD split: option.splits Option.bind_splits)

text \<open>The definitions a route unfolds to when it is run on a concrete request.\<close>

lemmas route_defs =
  inventoryRoutes_patch_def productRoutes_post_def AuthMiddleware_authenticate_def
  AuthMiddleware_requireManagerOrAdmin_def AuthMiddleware_requireAdmin_def
  AuthMiddleware_authorizeAny_def AuthMiddleware_authorize_def hasAnyRole_def hasRole_def
  ErrorHandler_asyncHandler_def InventoryController_updateStock_def
  ProductController_createProduct_def manager_def admin_def

lemmas schema_defs =
  updateStockSchema_validate_def productSchema_validate_def required_def optional_def
  only_keys_def joi_min0_def MAX_SAFE_INTEGER_def

lemmas store_defs =
  MockProductService_findById_def MockProductService_findBySku_def initial_state_def
  initial_products_def initial_logs_def

section \<open>The services\<close>

lemma MockProductService_updateStock_found:
  assumes "MockProductService_findById ident ps = Some p"
  shows "\<exists>p' ps'. MockProductService_updateStock ident n now ps = (Some p', ps')
           \<and> MockProductService_findById ident ps' = Some p'
           \<and> p' = p\<lparr>stock := n, updatedAt := now\<rparr>
           \<and> length ps' = length ps"
proof -
  from assms obtain i where i: "findIndex (\<lambda>p. p_id p = ident) ps = Some i"
    unfolding MockProductService_findById_def by (blast dest: find_Some_findIndex)
  from findIndex_SomeD [OF i] assms
  have lt: "i < length ps" and pi: "ps ! i = p" and idp: "p_id p = ident"
    unfolding MockProductService_findById_def by auto
  let ?y = "p\<lparr>stock := n, updatedAt := now\<rparr>"
  have "find (\<lambda>p. p_id p = ident) (ps[i := ?y]) = Some ?y"
    using i idp by (intro find_update_at_findIndex) auto
  then show ?thesis
    using i lt pi by (simp add: MockProductService_updateStock_def MockProductService_findById_def)
qed

lemma createStockUpdate_entry:
  "MockInventoryLogService_createStockUpdate a b pid wid uid prev new r ls = (e, ls') \<Longrightarrow>
     ls' = ls @ [e] \<and> productId e = pid \<and> previousStock e = prev \<and> newStock e = new
     \<and> userId e = uid"
  by (auto simp: MockInventoryLogService_createStockUpdate_def MockInventoryLogService_create_def
      Let_def)

lemma findBySku_case_sensitive:
  "map_option p_id (MockProductService_findBySku ''DX15-2025'' initial_products) = Some ''prod_001''
   \<and> MockProductService_findBySku ''dx15-2025'' initial_products = None"
  by (simp add: MockProductService_findBySku_def initial_products_def)

lemma hasAnyRole_iff: "hasAnyRole actual rs \<longleftrightarrow> (\<exists>r \<in> set rs. hasRole actual r)"
  by (simp add: hasAnyRole_def list_ex_iff)

section \<open>The handlers as the routes call them\<close>

text \<open>
  Called without a receiver, each handler answers 500 and leaves the state as it was,
  whatever the request; so do the routes for every request that passes the middlewares,
  and the middlewares answer 401 or 403. No routed request is answered 200, 201, 400, 404
  or 409, and none changes a product or the log.
\<close>

lemma asyncHandler_updateStock:
  "ErrorHandler_asyncHandler InventoryController_updateStock now_updated now_id now_stamp req st
     = (Response 500 False ''Internal server error'' None, st)"
  by (simp add: ErrorHandler_asyncHandler_def InventoryController_updateStock_def)

lemma asyncHandler_createProduct:
  "ErrorHandler_asyncHandler ProductController_createProduct now_id now_created now_updated req st
     = (Response 500 False ''Internal server error'' None, st)"
  by (simp add: ErrorHandler_asyncHandler_def ProductController_createProduct_def)

lemma inventoryRoutes_patch_answers:
  "snd (inventoryRoutes_patch now_updated now_id now_stamp req st) = st
   \<and> status (fst (inventoryRoutes_patch now_updated now_id now_stamp req st)) \<in> {401, 403, 500}"
  by (simp add: inventoryRoutes_patch_def asyncHandler_updateStock AuthMiddleware_authenticate_def
      AuthMiddleware_requireManagerOrAdmin_def AuthMiddleware_authorizeAny_def
      split: authorization.split option.split)

lemma productRoutes_post_answers:
  "snd (productRoutes_post now_id now_created now_updated req st) = st
   \<and> status (fst (productRoutes_post now_id now_created now_updated req st)) \<in> {401, 403, 500}"
  by (simp add: productRoutes_post_def asyncHandler_createProduct AuthMiddleware_authenticate_def
      AuthMiddleware_requireAdmin_def AuthMiddleware_authorize_def
      split: authorization.split option.split)

section \<open>The handler bodies, called as methods of their classes\<close>

text \<open>
  No route calls a handler this way. With the class as receiver the body of
  \<open>updateStock\<close> does what the stock-mutation contract says: an invalid stock is answered
  400 and an unknown product 404, both with the state unchanged, and a valid request for
  a product of the store writes the new stock and appends one log entry.
\<close>

lemma updateStock_method_invalid:
  assumes "stock_negative_or_non_numeric toNumber (req_body req)"
  shows "InventoryController_updateStock (Some (InventoryController_class toNumber))
           now_updated now_id now_stamp req st
           = (Response 400 False ''Validation error'' None, st)"
  using updateStockSchema_validate_rejects [OF assms]
  by (simp add: InventoryController_updateStock_def InventoryController_class_def)

lemma updateStock_method_absent:
  assumes "MockProductService_findById (params_id req) (products st) = None"
  shows "InventoryController_updateStock (Some (InventoryController_class toNumber))
           now_updated now_id now_stamp req st
           = (if updateStockSchema_validate toNumber (req_body req) = None
              then Response 400 False ''Validation error'' None
              else Response 404 False ''Product not found'' None, st)"
  using assms
  by (auto simp: InventoryController_updateStock_def InventoryController_class_def
      split: option.splits)

lemma updateStock_method_success:
  assumes valid: "updateStockSchema_validate toNumber (req_body req) = Some (n, r)"
    and present: "MockProductService_findById (params_id req) (products st) = Some p"
    and usr: "user req = Some u"
  shows "\<exists>d e p' ps'.
           InventoryController_updateStock (Some (InventoryController_class toNumber))
             now_updated now_id now_stamp req st
             = (Response 200 True ''Stock updated successfully'' (Some d),
                st\<lparr>products := ps', logs := logs st @ [e]\<rparr>)
           \<and> 0 \<le> n
           \<and> MockProductService_findById (params_id req) ps' = Some p' \<and> stock p' = n
           \<and> productId e = params_id req \<and> previousStock e = stock p \<and> newStock e = n"
proof -
  from MockProductService_updateStock_found [OF present, of n now_updated]
  obtain p' ps' where u: "MockProductService_updateStock (params_id req) n now_updated (products st) = (Some p', ps')"
    and f: "MockProductService_findById (params_id req) ps' = Some p'"
    and p': "p' = p\<lparr>stock := n, updatedAt := now_updated\<rparr>" by blast
  obtain e ls' where c: "MockInventoryLogService_createStockUpdate now_id now_stamp
       (params_id req) (or_default (warehouseId p) []) (u_id u) (stock p) n r (logs st) = (e, ls')"
    by (cases "MockInventoryLogService_createStockUpdate now_id now_stamp
       (params_id req) (or_default (warehouseId p) []) (u_id u) (stock p) n r (logs st)")
  from createStockUpdate_entry [OF c]
  have e: "ls' = logs st @ [e]" "productId e = params_id req" "previousStock e = stock p"
    "newStock e = n" by auto
  from valid present usr u c e(1)
  have "InventoryController_updateStock (Some (InventoryController_class toNumber))
             now_updated now_id now_stamp req st
        = (Response 200 True ''Stock updated successfully''
             (Some \<lparr>d_productId = params_id req, d_previousStock = stock p,
                    d_updatedStock = n, d_updatedAt = updatedAt p'\<rparr>),
           st\<lparr>products := ps', logs := logs st @ [e]\<rparr>)"
    by (simp add: InventoryController_updateStock_def InventoryController_class_def Let_def)
  moreover have "stock p' = n" using p' by simp
  moreover note f e(2-4) updateStockSchema_validate_nonneg [OF valid]
  ultimately show ?thesis by blast
qed

text \<open>
  With the class as receiver the body of \<open>createProduct\<close> answers 409 for a validated
  body whose SKU is in the store, and otherwise appends the product, which \<open>findBySku\<close>
  then returns.
\<close>

lemma createProduct_method_sku:
  assumes "productSchema_validate toNumber (req_body req) = Some v"
  shows "case MockProductService_findBySku (sku v) (products st) of
         Some existingProduct \<Rightarrow>
           ProductController_createProduct (Some (ProductController_class toNumber))
               now_id now_created now_updated req st
             = (Response 409 False ''Product with this SKU already exists'' None, st)
       | None \<Rightarrow>
           (\<exists>p. ProductController_createProduct (Some (ProductController_class toNumber))
                    now_id now_created now_updated req st
                  = (Response 201 True ''Product created successfully'' (Some p),
                     st\<lparr>products := products st @ [p]\<rparr>)
                \<and> MockProductService_findBySku (sku v) (products st @ [p]) = Some p)"
proof (cases "MockProductService_findBySku (sku v) (products st)")
  case None
  then show ?thesis
    using assms
    by (simp add: ProductController_createProduct_def ProductController_class_def
        MockProductService_create_def MockProductService_findBySku_def find_append_fresh Let_def)
next
  case (Some existingProduct)
  then show ?thesis
    using assms by (simp add: ProductController_createProduct_def ProductController_class_def)
qed

section \<open>Stock mutation through the route\<close>

text \<open>
  Claim C1 at a failing input. The manager's \<open>PATCH /api/v1/inventory/prod_001\<close> with the
  stock 10: the product is in the store with stock 5 and the body is valid, yet the route
  answers 500, and the state after the call is the seeded state: the stock is still 5
  and no log entry has been appended.
\<close>

theorem patch_valid_stock_answered_500:
  "map_option stock (MockProductService_findById (params_id restock_request) (products initial_state))
     = Some 5
   \<and> updateStockSchema_validate (\<lambda>s. None) (req_body restock_request)
     = Some (10, Some ''Stock adjustment for testing'')
   \<and> inventoryRoutes_patch 1 2 3 restock_request initial_state
     = (Response 500 False ''Internal server error'' None, initial_state)"
  by (simp add: route_defs schema_defs store_defs restock_request_def)

text \<open>
  Claim C2 at a failing input. The manager's \<open>PATCH /api/v1/inventory/nonexistent-id\<close>
  with a valid body: no product has that identifier, and the route answers 500, not 404.
  The state is unchanged.
\<close>

theorem patch_absent_product_answered_500:
  "MockProductService_findById (params_id absent_request) (products initial_state) = None
   \<and> updateStockSchema_validate (\<lambda>s. None) (req_body absent_request)
     = Some (10, Some ''Test update'')
   \<and> inventoryRoutes_patch 1 2 3 absent_request initial_state
     = (Response 500 False ''Internal server error'' None, initial_state)"
  by (simp add: route_defs schema_defs store_defs absent_request_def)

text \<open>
  Claim C3 at a failing input. The manager's \<open>PATCH /api/v1/inventory/prod_001\<close> with the
  stock -5: the route answers 500, not 400. The state is unchanged.
\<close>

theorem patch_negative_stock_answered_500:
  "stock_negative_or_non_numeric (\<lambda>s. None) (req_body negative_request)
   \<and> inventoryRoutes_patch 1 2 3 negative_request initial_state
     = (Response 500 False ''Internal server error'' None, initial_state)"
  by (simp add: route_defs stock_negative_or_non_numeric_def negative_request_def)

lemma three_and_a_half_fractional: "(7 / 2 :: rat) \<notin> \<int>"
proof
  assume "(7 / 2 :: rat) \<in> \<int>"
  then obtain z :: int where "(7 / 2 :: rat) = of_int z" by (auto elim: Ints_cases)
  then have "(of_int (2 * z) :: rat) = of_int 7" by simp
  then have "2 * z = 7" by (simp only: of_int_eq_iff)
  then show False by presburger
qed

text \<open>
  Claim C9 at a failing input. The manager's \<open>PATCH /api/v1/inventory/prod_001\<close> with the
  stock 3.5: the schema accepts the value, which is not an integer, but the route answers
  500 and the state is unchanged: the fractional stock is neither stored nor logged.
\<close>

theorem patch_fractional_stock_answered_500:
  "updateStockSchema_validate (\<lambda>s. None) (req_body fractional_request) = Some (7 / 2, None)
   \<and> (7 / 2 :: rat) \<notin> \<int>
   \<and> inventoryRoutes_patch 1 2 3 fractional_request initial_state
     = (Response 500 False ''Internal server error'' None, initial_state)"
  by (simp add: route_defs schema_defs fractional_request_def three_and_a_half_fractional)

section \<open>The log entry of a stock mutation\<close>

text \<open>
  Claim C4. The entry that \<open>createStockUpdate\<close> appends has the action \<open>add\<close> exactly when
  the new stock minus the previous stock is strictly positive, and \<open>update\<close> exactly when
  that difference is zero or negative; its action is never \<open>remove\<close>.
\<close>

theorem createStockUpdate_action:
  "(action (fst (MockInventoryLogService_createStockUpdate now_id now_stamp pid wid uid prev new r ls)) = Add
      \<longleftrightarrow> 0 < new - prev)
   \<and> (action (fst (MockInventoryLogService_createStockUpdate now_id now_stamp pid wid uid prev new r ls)) = Update
      \<longleftrightarrow> new - prev \<le> 0)
   \<and> action (fst (MockInventoryLogService_createStockUpdate now_id now_stamp pid wid uid prev new r ls)) \<noteq> Remove
   \<and> snd (MockInventoryLogService_createStockUpdate now_id now_stamp pid wid uid prev new r ls)
       = ls @ [fst (MockInventoryLogService_createStockUpdate now_id now_stamp pid wid uid prev new r ls)]"
  by (simp add: MockInventoryLogService_createStockUpdate_def MockInventoryLogService_create_def Let_def)

text \<open>
  The same through the handler, whatever its receiver: whatever \<open>updateStock\<close> appends to
  the log is one entry with the derived action.
\<close>

lemma updateStock_appended_action:
  "logs (snd (InventoryController_updateStock this now_updated now_id now_stamp req st)) = logs st
   \<or> (\<exists>e. logs (snd (InventoryController_updateStock this now_updated now_id now_stamp req st))
            = logs st @ [e]
          \<and> action e = (if previousStock e < newStock e then Add else Update))"
  by (auto simp: InventoryController_updateStock_def MockInventoryLogService_createStockUpdate_def
      MockInventoryLogService_create_def Let_def split: option.splits prod.splits)

text \<open>
  Claim C10. With the empty string as reason, and with no reason, the entry that
  \<open>createStockUpdate\<close> appends has the reason \<open>Stock update\<close>; whatever the reason
  argument, the reason of the appended entry is present and not empty.
\<close>

theorem createStockUpdate_reason:
  "reason (fst (MockInventoryLogService_createStockUpdate now_id now_stamp pid wid uid prev new (Some []) ls))
     = Some ''Stock update''
   \<and> reason (fst (MockInventoryLogService_createStockUpdate now_id now_stamp pid wid uid prev new None ls))
     = Some ''Stock update''
   \<and> reason (fst (MockInventoryLogService_createStockUpdate now_id now_stamp pid wid uid prev new r ls))
     \<noteq> Some []
   \<and> reason (fst (MockInventoryLogService_createStockUpdate now_id now_stamp pid wid uid prev new r ls))
     \<noteq> None
   \<and> snd (MockInventoryLogService_createStockUpdate now_id now_stamp pid wid uid prev new r ls)
       = ls @ [fst (MockInventoryLogService_createStockUpdate now_id now_stamp pid wid uid prev new r ls)]"
  by (simp add: MockInventoryLogService_createStockUpdate_def MockInventoryLogService_create_def
      Let_def or_default_def split: option.split)

section \<open>The audit log\<close>

lemma logs_after_prefix: "prefix ls (logs_after c ls)"
  by (cases c)
     (simp_all add: MockInventoryLogService_createStockUpdate_def
        MockInventoryLogService_create_def Let_def)

text \<open>
  Claim C5. The log is append-only: after any sequence of calls of the inventory-log
  service, the array before the calls is a prefix of the array after them, so every entry
  is still there, at its index and unchanged.
\<close>

theorem log_append_only: "prefix ls (fold logs_after calls ls)"
proof (induction calls arbitrary: ls)
  case Nil
  show ?case by simp
next
  case (Cons c calls)
  have "prefix ls (logs_after c ls)" by (rule logs_after_prefix)
  also have "prefix (logs_after c ls) (fold logs_after calls (logs_after c ls))"
    by (rule Cons.IH)
  finally show ?case by simp
qed

section \<open>Access policy\<close>

text \<open>
  Claim C6. \<open>hasRole actual needed\<close> holds exactly when the rank of \<open>actual\<close> is at least
  the rank of \<open>needed\<close>, with Viewer 1, Manager 2 and Admin 3; an Admin has the Viewer
  role, a Viewer has not the Manager role, and every role has itself.
\<close>

theorem hasRole_iff_rank:
  "(hasRole actual needed \<longleftrightarrow> spec_rank actual \<ge> spec_rank needed)
   \<and> hasRole ADMIN VIEWER \<and> \<not> hasRole VIEWER MANAGER \<and> hasRole r r"
  by (cases actual; cases needed) (simp_all add: hasRole_def spec_rank_def)

section \<open>Creating products\<close>

text \<open>
  Claim C7 at a failing input. The administrator's \<open>POST /api/v1/products\<close> with a valid
  body whose SKU is the one of the seeded product \<open>prod_001\<close>: the route answers 500, not
  409. With a valid body and a SKU that is not in the store the route answers 500 as
  well, the store is unchanged, and \<open>findBySku\<close> with that SKU finds nothing afterwards.
\<close>

theorem post_product_answered_500:
  "productSchema_validate (\<lambda>s. None) (req_body duplicate_sku_request) \<noteq> None
   \<and> map_option p_id (MockProductService_findBySku ''DX15-2025'' (products initial_state))
     = Some ''prod_001''
   \<and> productRoutes_post 1 2 3 duplicate_sku_request initial_state
     = (Response 500 False ''Internal server error'' None, initial_state)
   \<and> productSchema_validate (\<lambda>s. None) (req_body fresh_sku_request) \<noteq> None
   \<and> MockProductService_findBySku ''TEST-001'' (products initial_state) = None
   \<and> productRoutes_post 1 2 3 fresh_sku_request initial_state
     = (Response 500 False ''Internal server error'' None, initial_state)
   \<and> MockProductService_findBySku ''TEST-001''
       (products (snd (productRoutes_post 1 2 3 fresh_sku_request initial_state))) = None"
  by (simp add: route_defs schema_defs store_defs duplicate_sku_request_def fresh_sku_request_def)

section \<open>Identifiers of created products\<close>

text \<open>
  The decimal rendering of a clock reading is injective.
\<close>

lemma digit_char_inj: "a < 10 \<Longrightarrow> b < 10 \<Longrightarrow> digit_char a = digit_char b \<Longrightarrow> a = b"
proof -
  assume a: "a < 10" and b: "b < 10" and e: "digit_char a = digit_char b"
  from a have ca: "a \<in> {0, 1, 2, 3, 4, 5, 6, 7, 8, 9}" by auto
  from b have cb: "b \<in> {0, 1, 2, 3, 4, 5, 6, 7, 8, 9}" by auto
  from ca cb e show ?thesis by (auto simp: digit_char_def)
qed

lemma digit_char_not_minus: "d < 10 \<Longrightarrow> digit_char d \<noteq> CHR ''-''"
proof -
  assume "d < 10"
  then have "d \<in> {0, 1, 2, 3, 4, 5, 6, 7, 8, 9}" by auto
  then show ?thesis by (auto simp: digit_char_def)
qed

lemma digits_nonempty: "digits n \<noteq> []"
  by (subst digits.simps) simp

lemma digits_hd: "hd (digits n) \<noteq> CHR ''-''"
proof (induction n rule: digits.induct)
  case (1 n)
  show ?case
  proof (cases "n < 10")
    case True
    then show ?thesis by (subst digits.simps) (simp add: digit_char_not_minus)
  next
    case False
    with 1 show ?thesis by (subst digits.simps) (simp add: digits_nonempty)
  qed
qed

lemma digits_inj: "digits m = digits n \<Longrightarrow> m = n"
proof (induction m arbitrary: n rule: digits.induct)
  case (1 m)
  show ?case
  proof (cases "m < 10")
    case m: True
    show ?thesis
    proof (cases "n < 10")
      case True
      with m "1.prems" show ?thesis
        by (simp add: digits.simps [of m] digits.simps [of n] digit_char_inj)
    next
      case False
      with m "1.prems" digits_nonempty [of "n div 10"] show ?thesis
        by (simp add: digits.simps [of m] digits.simps [of n])
    qed
  next
    case m: False
    show ?thesis
    proof (cases "n < 10")
      case True
      with m "1.prems" digits_nonempty [of "m div 10"] show ?thesis
        by (simp add: digits.simps [of m] digits.simps [of n])
    next
      case False
      with m "1.prems" have a: "digits (m div 10) = digits (n div 10)"
        and b: "digit_char (m mod 10) = digit_char (n mod 10)"
        by (simp_all add: digits.simps [of m] digits.simps [of n])
      from "1.IH" [OF m a] have "m div 10 = n div 10" .
      moreover from b have "m mod 10 = n mod 10" by (intro digit_char_inj) simp_all
      ultimately show ?thesis by (metis div_mult_mod_eq)
    qed
  qed
qed

lemma number_toString_inj: "number_toString i = number_toString j \<Longrightarrow> i = j"
proof -
  assume e: "number_toString i = number_toString j"
  have neg: "digits a \<noteq> CHR ''-'' # digits b" for a b
    using digits_hd [of a] by (cases "digits a") (auto simp: digits_nonempty)
  show ?thesis
  proof (cases "i < 0")
    case i: True
    show ?thesis
    proof (cases "j < 0")
      case True
      with i e have "digits (nat (- i)) = digits (nat (- j))" by (simp add: number_toString_def)
      then have "nat (- i) = nat (- j)" by (rule digits_inj)
      with i True show ?thesis by simp
    next
      case False
      with i e neg [of "nat j" "nat (- i)"] show ?thesis by (simp add: number_toString_def)
    qed
  next
    case i: False
    show ?thesis
    proof (cases "j < 0")
      case True
      with i e neg [of "nat i" "nat (- j)"] show ?thesis by (simp add: number_toString_def)
    next
      case False
      with i e have "digits (nat i) = digits (nat j)" by (simp add: number_toString_def)
      then have "nat i = nat j" by (rule digits_inj)
      with i False show ?thesis by simp
    qed
  qed
qed

lemma map_p_id_products_after_creates:
  "map p_id (products_after_creates cs ps)
     = map p_id ps @ map (\<lambda>c. ''prod_'' @ number_toString (fst c)) cs"
proof (induction cs arbitrary: ps)
  case Nil
  show ?case by simp
next
  case (Cons c cs)
  obtain t a b d where c: "c = (t, a, b, d)" by (cases c)
  show ?case
    unfolding c by (simp add: Cons.IH MockProductService_create_def Let_def)
qed

text \<open>
  Claim C8, as stated, fails: \<open>create\<close> makes the identifier of the clock reading alone
  and looks at no identifier of the store. Two calls that read the same millisecond
  assign the same identifier, and the store then holds two products that share it.
\<close>

theorem create_same_millisecond_counterexample:
  "p_id (fst (MockProductService_create 1700000000000 1700000000000 1700000000000
               test_product initial_products)) = ''prod_1700000000000''
   \<and> p_id (fst (MockProductService_create 1700000000000 1700000000000 1700000000000
               update_test_product
               (snd (MockProductService_create 1700000000000 1700000000000 1700000000000
                       test_product initial_products)))) = ''prod_1700000000000''
   \<and> \<not> distinct (map p_id (products_after_creates
         [(1700000000000, 1700000000000, 1700000000000, test_product),
          (1700000000000, 1700000000000, 1700000000000, update_test_product)]
         initial_products))"
  by (simp add: MockProductService_create_def Let_def number_toString_def digits.simps
      digit_char_def)

text \<open>
  Claim C8, amended. Two calls of \<open>create\<close> assign the same identifier exactly when they
  read the same clock value in milliseconds. Hence, from a store whose identifiers are
  pairwise distinct, calls of \<open>create\<close> at pairwise different clock readings, none of
  which renders an identifier that is already in the store, leave the identifiers of the
  store pairwise distinct.
\<close>

theorem create_identifiers:
  "(p_id (fst (MockProductService_create t1 c1 u1 d1 ps1))
      = p_id (fst (MockProductService_create t2 c2 u2 d2 ps2)) \<longleftrightarrow> t1 = t2)
   \<and> (distinct (map p_id ps) \<and> distinct (map fst cs)
        \<and> list_all (\<lambda>c. ''prod_'' @ number_toString (fst c) \<notin> set (map p_id ps)) cs
       \<longrightarrow> distinct (map p_id (products_after_creates cs ps)))"
proof (intro conjI impI)
  show "p_id (fst (MockProductService_create t1 c1 u1 d1 ps1))
      = p_id (fst (MockProductService_create t2 c2 u2 d2 ps2)) \<longleftrightarrow> t1 = t2"
    by (auto simp: MockProductService_create_def Let_def dest: number_toString_inj)
next
  assume h: "distinct (map p_id ps) \<and> distinct (map fst cs)
        \<and> list_all (\<lambda>c. ''prod_'' @ number_toString (fst c) \<notin> set (map p_id ps)) cs"
  have inj: "inj_on (\<lambda>t. ''prod_'' @ number_toString t) A" for A
    by (auto simp: inj_on_def dest: number_toString_inj)
  from h have d: "distinct (map fst cs)" by blast
  have "distinct (map (\<lambda>t. ''prod_'' @ number_toString t) (map fst cs))"
    by (rule iffD2 [OF distinct_map]) (use d inj [of "set (map fst cs)"] in blast)
  then have new: "distinct (map (\<lambda>c. ''prod_'' @ number_toString (fst c)) cs)"
    by (simp add: comp_def)
  from h have fresh: "\<forall>c \<in> set cs. ''prod_'' @ number_toString (fst c) \<notin> set (map p_id ps)"
    by (simp only: list_all_iff) blast
  have disj: "set (map p_id ps) \<inter> set (map (\<lambda>c. ''prod_'' @ number_toString (fst c)) cs) = {}"
  proof (rule ccontr)
    assume "set (map p_id ps) \<inter> set (map (\<lambda>c. ''prod_'' @ number_toString (fst c)) cs) \<noteq> {}"
    then obtain x where x: "x \<in> set (map p_id ps)"
      and "x \<in> set (map (\<lambda>c. ''prod_'' @ number_toString (fst c)) cs)" by blast
    then obtain c where "c \<in> set cs" and "x = ''prod_'' @ number_toString (fst c)"
      by (auto simp only: set_map image_iff)
    with fresh x show False by blast
  qed
  from h new disj show "distinct (map p_id (products_after_creates cs ps))"
    by (simp only: map_p_id_products_after_creates distinct_append)
qed

theorem create_identifiers_witness:
  "distinct (map p_id initial_products)
   \<and> distinct (map fst [(1700000000000 :: int, 1700000000000 :: int, 1700000000000 :: int, test_product),
                        (1700000000001, 1700000000001, 1700000000001, update_test_product)])
   \<and> distinct (map p_id (products_after_creates
         [(1700000000000, 1700000000000, 1700000000000, test_product),
          (1700000000001, 1700000000001, 1700000000001, update_test_product)]
         initial_products))"
proof -
  let ?cs = "[(1700000000000 :: int, 1700000000000 :: int, 1700000000000 :: int, test_product),
              (1700000000001, 1700000000001, 1700000000001, update_test_product)]"
  have a: "distinct (map p_id initial_products)"
    by (simp add: initial_products_def)
  have b: "distinct (map fst ?cs)" by simp
  have c: "list_all (\<lambda>c. ''prod_'' @ number_toString (fst c) \<notin> set (map p_id initial_products)) ?cs"
    by (simp add: initial_products_def number_toString_def digits.simps digit_char_def)
  from create_identifiers [where ps = initial_products and cs = ?cs] a b c
  have "distinct (map p_id (products_after_creates ?cs initial_products))" by blast
  with a b show ?thesis by blast
qed

end
